theory Spec2Isabelle
  imports Main
begin

section \<open>JavaScript values\<close>

text \<open>
  The values that flow through \<^verbatim>\<open>input-toggle.js\<close>: what jQuery's \<^verbatim>\<open>.data()\<close>,
  \<^verbatim>\<open>.attr()\<close> and \<^verbatim>\<open>.val()\<close> return and what the library compares. A number is
  kept as the text that \<^verbatim>\<open>String(n)\<close> prints for it; the library never computes with
  numbers, it only tests their truthiness, compares them with \<^verbatim>\<open>===\<close> and prints them.
\<close>

datatype jsval =
    JUndefined
  | JNull
  | JBool bool
  | JNum string
  | JStr string
  | JArr "jsval list"
  | JObj

text \<open>
  What the library can throw: a TypeError of the language, the error of the DOM when
  \<^verbatim>\<open>setAttribute\<close> is given a name it refuses, and the error of jQuery's selector
  engine.
\<close>

datatype js_error = TypeError | InvalidCharacterError | Selector_syntax_error

text \<open>Truthiness, as tested by \<^verbatim>\<open>if (x)\<close> and \<^verbatim>\<open>x || ''\<close>.\<close>

fun truthy :: "jsval \<Rightarrow> bool" where
  "truthy JUndefined = False"
| "truthy JNull = False"
| "truthy (JBool b) = b"
| "truthy (JNum s) = (s \<noteq> ''0'' \<and> s \<noteq> ''NaN'')"
| "truthy (JStr s) = (s \<noteq> [])"
| "truthy (JArr xs) = True"
| "truthy JObj = True"

text \<open>
  Strict equality \<^verbatim>\<open>===\<close>, which \<^verbatim>\<open>Array.prototype.indexOf\<close> uses. Arrays and
  objects are equal only to themselves; the two sides compared by the library come from
  different sources (the toggle's attribute and the inputs' values), so they are never
  the same object.
\<close>

fun strict_eq :: "jsval \<Rightarrow> jsval \<Rightarrow> bool" where
  "strict_eq JUndefined JUndefined = True"
| "strict_eq JNull JNull = True"
| "strict_eq (JBool a) (JBool b) = (a = b)"
| "strict_eq (JNum a) (JNum b) = (a = b \<and> a \<noteq> ''NaN'')"
| "strict_eq (JStr a) (JStr b) = (a = b)"
| "strict_eq _ _ = False"

definition isArray :: "jsval \<Rightarrow> bool" where
  "isArray v = (case v of JArr xs \<Rightarrow> True | _ \<Rightarrow> False)"

fun comma_join :: "string list \<Rightarrow> string" where
  "comma_join [] = []"
| "comma_join [s] = s"
| "comma_join (s # t # ss) = s @ '','' @ comma_join (t # ss)"

text \<open>
  \<^verbatim>\<open>String(v)\<close> for a value that has a \<^verbatim>\<open>toString\<close> method; inside an array,
  \<^verbatim>\<open>join\<close> prints \<^verbatim>\<open>null\<close> and \<^verbatim>\<open>undefined\<close> as the empty string.
\<close>

fun text_of :: "jsval \<Rightarrow> string" where
  "text_of JUndefined = []"
| "text_of JNull = []"
| "text_of (JBool b) = (if b then ''true'' else ''false'')"
| "text_of (JNum s) = s"
| "text_of (JStr s) = s"
| "text_of (JArr xs) = comma_join (map text_of xs)"
| "text_of JObj = ''[object Object]''"

text \<open>\<^verbatim>\<open>v.toString()\<close>: a TypeError on \<^verbatim>\<open>null\<close> and \<^verbatim>\<open>undefined\<close>.\<close>

definition toString :: "jsval \<Rightarrow> js_error + string" where
  "toString v = (if v = JUndefined \<or> v = JNull then Inl TypeError else Inr (text_of v))"

section \<open>jQuery's reading of data attributes\<close>

text \<open>
  The library calls jQuery; its calls are modelled as jQuery 3 carries them out. Two
  steps of jQuery's conversion of a \<^verbatim>\<open>data-*\<close> attribute depend on the JavaScript
  engine and are parameters of the model: whether a text survives the round trip
  \<^verbatim>\<open>+data + "" === data\<close> through a floating-point number, and \<^verbatim>\<open>JSON.parse\<close>
  (\<open>None\<close> when it throws).
\<close>

record engine =
  number_roundtrips :: "string \<Rightarrow> bool"
  JSON_parse :: "string \<Rightarrow> jsval option"

definition is_digit :: "char \<Rightarrow> bool" where
  "is_digit c = (c \<in> set ''0123456789'')"

text \<open>
  Plain decimal integers of at most 15 digits (no sign but \<^verbatim>\<open>-\<close>, no leading zero, no
  \<^verbatim>\<open>-0\<close>) are exact in double precision and print as they are written, so for them the
  round trip is decided here.
\<close>

definition natural_literal :: "string \<Rightarrow> bool" where
  "natural_literal s =
     (s = ''0'' \<or>
      (s \<noteq> [] \<and> hd s \<noteq> CHR ''0'' \<and> length s \<le> 15 \<and> list_all is_digit s))"

definition integer_literal :: "string \<Rightarrow> bool" where
  "integer_literal s =
     (natural_literal s \<or>
      (s \<noteq> [] \<and> hd s = CHR ''-'' \<and> natural_literal (tl s) \<and> tl s \<noteq> ''0''))"

text \<open>No number prints as the empty text, whatever the engine.\<close>

definition is_number_text :: "engine \<Rightarrow> string \<Rightarrow> bool" where
  "is_number_text E s = (integer_literal s \<or> (s \<noteq> [] \<and> number_roundtrips E s))"

text \<open>jQuery's \<^verbatim>\<open>rbrace = /^(?:\{[\w\W]*\}|\[[\w\W]*\])$/\<close>.\<close>

definition rbrace :: "string \<Rightarrow> bool" where
  "rbrace s =
     (2 \<le> length s \<and>
      ((hd s = CHR ''{'' \<and> last s = CHR ''}'') \<or> (hd s = CHR ''['' \<and> last s = CHR '']'')))"

text \<open>
  jQuery's \<^verbatim>\<open>getData\<close>, wrapped by \<^verbatim>\<open>dataAttr\<close> in a \<^verbatim>\<open>try\<close> that keeps the
  text when \<^verbatim>\<open>JSON.parse\<close> throws.
\<close>

definition getData :: "engine \<Rightarrow> string \<Rightarrow> jsval" where
  "getData E d =
     (if d = ''true'' then JBool True
      else if d = ''false'' then JBool False
      else if d = ''null'' then JNull
      else if is_number_text E d then JNum d
      else if rbrace d then (case JSON_parse E d of Some v \<Rightarrow> v | None \<Rightarrow> JStr d)
      else JStr d)"

section \<open>Elements and the document\<close>

text \<open>
  A binding of an event handler on an element, as \<^verbatim>\<open>.on('change.InputToggle', f)\<close>
  makes it. The handler that \<^verbatim>\<open>init\<close> binds closes over the toggled elements of its
  group, the input name and the scope (the positions of the scope's descendants).
\<close>

datatype callback =
    Update_toggles "nat list" string "nat set"
  | Foreign nat

record binding =
  ev_type :: string
  ev_namespaces :: "string list"
  ev_callback :: callback

text \<open>
  An element of the page: its attributes, under their names as the HTML document has
  them, in lower case (the class list is the attribute \<^verbatim>\<open>class\<close>); the handlers
  bound on it; and the values that jQuery's \<^verbatim>\<open>.data()\<close> has converted and remembers
  for it. Elements are referred to by their position in the page, in document order.
\<close>

record element =
  attrs :: "string \<rightharpoonup> string"
  bindings :: "binding list"
  data_cache :: "string \<rightharpoonup> jsval"

text \<open>
  What the DOM reports for a form input when the library asks: its \<^verbatim>\<open>type\<close>
  property, whether it is checked, and what \<^verbatim>\<open>$(input).val()\<close> returns.
\<close>

record input_state =
  etype :: string
  checked :: bool
  val :: jsval

text \<open>
  The document, as far as the library depends on it beyond the attributes of the
  elements. These are parameters of the model:
  \<^item> \<open>accepts_name\<close>: whether \<^verbatim>\<open>setAttribute\<close> takes a name on which the versions of
    the DOM standard differ (see \<open>name_accepted\<close>);
  \<^item> \<open>odd_selector\<close>: the elements that the selector \<^verbatim>\<open>[name="n"]\<close> matches when
    \<open>n\<close> has a character that ends or escapes the quoted text, so that the selector is
    not the comparison it is meant to be (\<open>None\<close> when jQuery throws a syntax error);
  \<^item> \<open>form_state\<close>: the state of the form input at a position. It may follow the
    attributes of the page (the checked state of an untouched checkbox follows its
    attribute \<^verbatim>\<open>checked\<close>), so it is a function of the page.
\<close>

record document =
  accepts_name :: "string \<Rightarrow> bool"
  odd_selector :: "string \<Rightarrow> element list \<Rightarrow> nat set option"
  form_state :: "element list \<Rightarrow> nat \<Rightarrow> input_state"

text \<open>
  An HTML document takes the name of an attribute in lower case, in
  \<^verbatim>\<open>setAttribute\<close> and \<^verbatim>\<open>removeAttribute\<close> alike.
\<close>

definition ascii_lower :: "char \<Rightarrow> char" where
  "ascii_lower c =
     (case map_of (zip ''ABCDEFGHIJKLMNOPQRSTUVWXYZ'' ''abcdefghijklmnopqrstuvwxyz'') c of
        None \<Rightarrow> c | Some l \<Rightarrow> l)"

definition ascii_upper :: "char \<Rightarrow> char" where
  "ascii_upper c =
     (case map_of (zip ''abcdefghijklmnopqrstuvwxyz'' ''ABCDEFGHIJKLMNOPQRSTUVWXYZ'') c of
        None \<Rightarrow> c | Some u \<Rightarrow> u)"

definition is_upper :: "char \<Rightarrow> bool" where
  "is_upper c = (c \<in> set ''ABCDEFGHIJKLMNOPQRSTUVWXYZ'')"

definition is_lower :: "char \<Rightarrow> bool" where
  "is_lower c = (c \<in> set ''abcdefghijklmnopqrstuvwxyz'')"

definition dom_name :: "string \<Rightarrow> string" where
  "dom_name n = map ascii_lower n"

text \<open>
  \<^verbatim>\<open>$el.is('[name]')\<close> and \<^verbatim>\<open>$el.attr(name)\<close> as a getter, for the name of a marker:
  a name in lower case that is no boolean attribute and needs no escaping in a
  selector, as the default names are.
\<close>

definition is_attr :: "element \<Rightarrow> string \<Rightarrow> bool" where
  "is_attr e n = (attrs e n \<noteq> None)"

definition attr_get :: "element \<Rightarrow> string \<Rightarrow> jsval" where
  "attr_get e n = (case attrs e n of None \<Rightarrow> JUndefined | Some v \<Rightarrow> JStr v)"

text \<open>
  \<^verbatim>\<open>$el.data(key)\<close>. jQuery looks the key up, in camel case (a leading \<^verbatim>\<open>-ms-\<close>
  loses its first dash, then each dash before a small letter goes and the letter becomes
  a capital), among the values it remembers for the element. If there is none, it reads the attribute \<^verbatim>\<open>data-\<close> plus
  the key, with every capital letter replaced by a dash and its small letter, and if
  the attribute is there it converts its text and remembers the result.
\<close>

fun dash_alpha :: "string \<Rightarrow> string" where
  "dash_alpha (c # d # cs) =
     (if c = CHR ''-'' \<and> is_lower d then ascii_upper d # dash_alpha cs
      else c # dash_alpha (d # cs))"
| "dash_alpha cs = cs"

definition camelCase :: "string \<Rightarrow> string" where
  "camelCase key = dash_alpha (if take 4 key = ''-ms-'' then drop 1 key else key)"

definition data_attribute :: "string \<Rightarrow> string" where
  "data_attribute key =
     ''data-'' @ concat (map (\<lambda>c. if is_upper c then [CHR ''-'', ascii_lower c] else [c]) key)"

definition jq_data :: "engine \<Rightarrow> element \<Rightarrow> string \<Rightarrow> jsval" where
  "jq_data E e key =
     (case data_cache e (camelCase key) of
        Some v \<Rightarrow> v
      | None \<Rightarrow>
          (case attrs e (data_attribute key) of None \<Rightarrow> JUndefined | Some d \<Rightarrow> getData E d))"

text \<open>The element as the call \<^verbatim>\<open>$el.data(key)\<close> leaves it.\<close>

definition jq_data_state :: "engine \<Rightarrow> element \<Rightarrow> string \<Rightarrow> element" where
  "jq_data_state E e key =
     (case data_cache e (camelCase key) of
        Some v \<Rightarrow> e
      | None \<Rightarrow>
          (case attrs e (data_attribute key) of
             None \<Rightarrow> e
           | Some d \<Rightarrow> e\<lparr>data_cache := (data_cache e)(camelCase key \<mapsto> getData E d)\<rparr>))"

text \<open>\<^verbatim>\<open>InputToggle.attributes\<close>: the names of the seven marker attributes.\<close>

record attribute_names =
  toggled :: string
  activeValue :: string
  inactiveValue :: string
  activeClass :: string
  inactiveClass :: string
  activeAttribute :: string
  inactiveAttribute :: string

definition default_attributes :: attribute_names where
  "default_attributes =
     \<lparr> toggled = ''data-input-toggle'',
       activeValue = ''data-input-toggle-active-value'',
       inactiveValue = ''data-input-toggle-inactive-value'',
       activeClass = ''data-input-toggle-active-class'',
       inactiveClass = ''data-input-toggle-inactive-class'',
       activeAttribute = ''data-input-toggle-active-attribute'',
       inactiveAttribute = ''data-input-toggle-inactive-attribute'' \<rparr>"

section \<open>Activation\<close>

text \<open>
  \<^verbatim>\<open>getAttributeValue\<close> (lines 225-237): the value it returns, and the element as
  the call leaves it.
\<close>

definition getAttributeValue :: "engine \<Rightarrow> element \<Rightarrow> string \<Rightarrow> jsval" where
  "getAttributeValue E e attributeName =
     (if is_attr e attributeName then
        (if take 5 attributeName = ''data-'' then jq_data E e (drop 5 attributeName)
         else attr_get e attributeName)
      else JBool False)"

definition getAttributeValue_state :: "engine \<Rightarrow> element \<Rightarrow> string \<Rightarrow> element" where
  "getAttributeValue_state E e attributeName =
     (if is_attr e attributeName \<and> take 5 attributeName = ''data-''
      then jq_data_state E e (drop 5 attributeName) else e)"

text \<open>
  \<^verbatim>\<open>$(testValues).filter(inputValues)\<close>: with an array as its argument, jQuery's
  \<^verbatim>\<open>filter\<close> keeps the members of the wrapped array that \<^verbatim>\<open>indexOf\<close> finds in the
  argument.
\<close>

definition index_found :: "jsval list \<Rightarrow> jsval \<Rightarrow> bool" where
  "index_found xs v = list_ex (\<lambda>x. strict_eq x v) xs"

definition jq_filter :: "jsval list \<Rightarrow> jsval list \<Rightarrow> jsval list" where
  "jq_filter wrapped qualifier = filter (index_found qualifier) wrapped"

text \<open>\<^verbatim>\<open>hasInputValues\<close> (lines 238-250).\<close>

definition hasInputValues :: "jsval list \<Rightarrow> jsval \<Rightarrow> js_error + bool" where
  "hasInputValues inputValues testValues =
     (case (case testValues of
              JArr items \<Rightarrow> Inr items
            | _ \<Rightarrow> (case toString testValues of Inl err \<Rightarrow> Inl err | Inr s \<Rightarrow> Inr [JStr s])) of
        Inl err \<Rightarrow> Inl err
      | Inr tests \<Rightarrow> Inr (0 < length (jq_filter tests inputValues)))"

text \<open>
  \<^verbatim>\<open>determineActive\<close> (lines 251-264): what it returns, a boolean or \<^verbatim>\<open>undefined\<close>
  when the function falls off its end, and the toggled element as its two reads leave
  it.
\<close>

definition determineActive ::
  "engine \<Rightarrow> attribute_names \<Rightarrow> element \<Rightarrow> jsval list \<Rightarrow> js_error + jsval" where
  "determineActive E A toggle inputValues =
     (let activeValues = getAttributeValue E toggle (activeValue A);
          inactiveValues =
            getAttributeValue E (getAttributeValue_state E toggle (activeValue A))
              (inactiveValue A)
      in if truthy activeValues then
           (case hasInputValues inputValues activeValues of
              Inl err \<Rightarrow> Inl err | Inr b \<Rightarrow> Inr (JBool b))
         else if truthy inactiveValues then
           (case hasInputValues inputValues inactiveValues of
              Inl err \<Rightarrow> Inl err | Inr b \<Rightarrow> Inr (JBool (\<not> b)))
         else Inr JUndefined)"

definition determineActive_state :: "engine \<Rightarrow> attribute_names \<Rightarrow> element \<Rightarrow> element" where
  "determineActive_state E A toggle =
     getAttributeValue_state E (getAttributeValue_state E toggle (activeValue A))
       (inactiveValue A)"

section \<open>Classes\<close>

text \<open>
  jQuery 3 splits class names at its \<^verbatim>\<open>rnothtmlwhite = /[^\x20\t\r\n\f]+/g\<close> and
  writes the class attribute back as the names joined by single spaces
  (\<^verbatim>\<open>stripAndCollapse\<close>).
\<close>

definition is_space :: "char \<Rightarrow> bool" where
  "is_space c = (c \<in> set [CHR 0x20, CHR 0x09, CHR 0x0D, CHR 0x0A, CHR 0x0C])"

function tokens :: "string \<Rightarrow> string list" where
  "tokens [] = []"
| "tokens (c # cs) =
     (if is_space c then tokens cs
      else (c # takeWhile (\<lambda>x. \<not> is_space x) cs) # tokens (dropWhile (\<lambda>x. \<not> is_space x) cs))"
  by pat_completeness auto
termination
  by (relation "measure length") (auto simp: less_Suc_eq_le length_dropWhile_le)

fun join_sp :: "string list \<Rightarrow> string" where
  "join_sp [] = []"
| "join_sp [t] = t"
| "join_sp (t # u # ts) = t @ '' '' @ join_sp (u # ts)"

text \<open>\<^verbatim>\<open>getClass(elem)\<close>: the class attribute, or the empty string.\<close>

definition getClass :: "element \<Rightarrow> string" where
  "getClass e = (case attrs e ''class'' of None \<Rightarrow> [] | Some c \<Rightarrow> c)"

text \<open>
  \<^verbatim>\<open>elem.setAttribute(name, value)\<close> for a name that the DOM takes: the attribute of
  that name, in lower case, gets the text.
\<close>

definition setAttribute :: "element \<Rightarrow> string \<Rightarrow> string \<Rightarrow> element" where
  "setAttribute e n v = e\<lparr>attrs := (attrs e)(dom_name n \<mapsto> v)\<rparr>"

text \<open>
  \<^verbatim>\<open>.addClass(value)\<close>: each name of \<open>value\<close> that is not yet among the element's
  names is appended; the attribute is written only if its text changes.
\<close>

definition addClass :: "element \<Rightarrow> string \<Rightarrow> element" where
  "addClass e v =
     (let classes = tokens v in
      if classes = [] then e
      else
        (let curValue = getClass e;
             cur = foldl (\<lambda>cur clazz. if clazz \<in> set cur then cur else cur @ [clazz])
                     (tokens curValue) classes;
             finalValue = join_sp cur
         in if curValue \<noteq> finalValue then setAttribute e ''class'' finalValue else e))"

text \<open>\<^verbatim>\<open>.removeClass(value)\<close>: every occurrence of each name of \<open>value\<close> is removed.\<close>

definition removeClass :: "element \<Rightarrow> string \<Rightarrow> element" where
  "removeClass e v =
     (let classes = tokens v in
      if classes = [] then e
      else
        (let curValue = getClass e;
             cur = foldl (\<lambda>cur clazz. filter (\<lambda>c. c \<noteq> clazz) cur) (tokens curValue) classes;
             finalValue = join_sp cur
         in if curValue \<noteq> finalValue then setAttribute e ''class'' finalValue else e))"

text \<open>\<^verbatim>\<open>$toggle.attr(name) || ''\<close>.\<close>

definition attr_or_empty :: "element \<Rightarrow> string \<Rightarrow> string" where
  "attr_or_empty e n = (let v = attr_get e n in if truthy v then text_of v else [])"

text \<open>\<^verbatim>\<open>toggleClass\<close> (lines 265-288).\<close>

definition toggleClass :: "attribute_names \<Rightarrow> element \<Rightarrow> jsval \<Rightarrow> element" where
  "toggleClass A toggle isActive =
     (let activeClass = attr_or_empty toggle (activeClass A);
          inactiveClass = attr_or_empty toggle (inactiveClass A)
      in if truthy isActive then
           (let t1 = (if 0 < length activeClass then addClass toggle activeClass else toggle)
            in if 0 < length inactiveClass then removeClass t1 inactiveClass else t1)
         else
           (let t1 = (if 0 < length activeClass then removeClass toggle activeClass else toggle)
            in if 0 < length inactiveClass then addClass t1 inactiveClass else t1))"

section \<open>Attribute directives\<close>

text \<open>\<^verbatim>\<open>String.prototype.split\<close> with a one-character separator.\<close>

fun split_on :: "char \<Rightarrow> string \<Rightarrow> string list" where
  "split_on d [] = [[]]"
| "split_on d (c # cs) =
     (if c = d then [] # split_on d cs
      else (case split_on d cs of [] \<Rightarrow> [[c]] | w # ws \<Rightarrow> (c # w) # ws))"

record directive =
  dir_attribute :: string
  dir_value :: string

text \<open>\<^verbatim>\<open>parseToggleAttribute\<close> (lines 289-309).\<close>

definition parseToggleAttribute :: "element \<Rightarrow> string \<Rightarrow> directive" where
  "parseToggleAttribute toggle attribute =
     (if is_attr toggle attribute then
        (let toggleAttribute = text_of (attr_get toggle attribute);
             splitEqual = split_on (CHR ''='') toggleAttribute
         in if 1 < length splitEqual
            then \<lparr> dir_attribute = splitEqual ! 0, dir_value = splitEqual ! 1 \<rparr>
            else \<lparr> dir_attribute = toggleAttribute, dir_value = [] \<rparr>)
      else \<lparr> dir_attribute = [], dir_value = [] \<rparr>)"

text \<open>
  Which names \<^verbatim>\<open>setAttribute\<close> takes. A name made of ASCII letters, digits,
  \<^verbatim>\<open>-\<close>, \<^verbatim>\<open>_\<close>, \<^verbatim>\<open>.\<close> and \<^verbatim>\<open>:\<close> that does not start with a digit, \<^verbatim>\<open>-\<close> or
  \<^verbatim>\<open>.\<close> is taken by every version of the DOM standard. The empty name and a name
  with white space, a NUL, \<^verbatim>\<open>/\<close>, \<^verbatim>\<open>>\<close> or \<^verbatim>\<open>=\<close> is refused by every version, with
  an InvalidCharacterError. On the other names the versions differ, and the document
  decides.
\<close>

definition is_letter :: "char \<Rightarrow> bool" where
  "is_letter c = (is_upper c \<or> is_lower c)"

definition name_start :: "char \<Rightarrow> bool" where
  "name_start c = (is_letter c \<or> c = CHR ''_'' \<or> c = CHR '':'')"

definition name_char :: "char \<Rightarrow> bool" where
  "name_char c = (name_start c \<or> is_digit c \<or> c = CHR ''-'' \<or> c = CHR ''.'')"

definition refused_char :: "char \<Rightarrow> bool" where
  "refused_char c =
     (is_space c \<or> c = CHR 0x00 \<or> c = CHR ''/'' \<or> c = CHR ''>'' \<or> c = CHR ''='')"

definition name_accepted :: "document \<Rightarrow> string \<Rightarrow> bool" where
  "name_accepted D n =
     (n \<noteq> [] \<and>
      ((name_start (hd n) \<and> list_all name_char n) \<or>
       (list_all (\<lambda>c. \<not> refused_char c) n \<and> accepts_name D n)))"

text \<open>
  The attributes that jQuery treats as boolean, whatever the case of their letters:
  \<^verbatim>\<open>.attr(name, value)\<close> writes such an attribute with its name for its value.
\<close>

definition boolean_attribute :: "string \<Rightarrow> bool" where
  "boolean_attribute n =
     (dom_name n \<in> set [''checked'', ''selected'', ''async'', ''autofocus'', ''autoplay'',
        ''controls'', ''defer'', ''disabled'', ''hidden'', ''ismap'', ''loop'', ''multiple'',
        ''open'', ''readonly'', ''required'', ''scoped''])"

text \<open>
  \<^verbatim>\<open>.attr(name, value)\<close> with a text for the value: the error if the DOM refuses the
  name, and the element as the call leaves it.
\<close>

definition attr_set :: "document \<Rightarrow> element \<Rightarrow> string \<Rightarrow> string \<Rightarrow> js_error option \<times> element" where
  "attr_set D e n v =
     (if name_accepted D n
      then (None, setAttribute e n (if boolean_attribute n then n else v))
      else (Some InvalidCharacterError, e))"

text \<open>
  \<^verbatim>\<open>.removeAttr(name)\<close> removes every attribute that \<open>name\<close> lists, split at white
  space; \<^verbatim>\<open>removeAttribute\<close> refuses no name. \<^verbatim>\<open>.attr(name)\<close> with one argument is
  the getter: it reads the attribute and leaves the element as it is.
\<close>

definition removeAttr :: "element \<Rightarrow> string \<Rightarrow> element" where
  "removeAttr e n =
     e\<lparr>attrs := (\<lambda>k. if k \<in> set (map dom_name (tokens n)) then None else attrs e k)\<rparr>"

definition attr_read :: "element \<Rightarrow> string \<Rightarrow> element" where
  "attr_read e n = e"

text \<open>
  \<^verbatim>\<open>toggleAttribute\<close> (lines 310-341): the error if a call of \<^verbatim>\<open>.attr\<close> threw, and
  the element as \<^verbatim>\<open>toggleAttribute\<close> leaves it.
\<close>

definition toggleAttribute ::
  "document \<Rightarrow> attribute_names \<Rightarrow> element \<Rightarrow> jsval \<Rightarrow> js_error option \<times> element" where
  "toggleAttribute D A toggle isActive =
     (let activeAttribute = parseToggleAttribute toggle (activeAttribute A);
          inactiveAttribute = parseToggleAttribute toggle (inactiveAttribute A)
      in if truthy isActive then
           (case (if 0 < length (dir_attribute activeAttribute) then
                    (if 0 < length (dir_value activeAttribute)
                     then attr_set D toggle (dir_attribute activeAttribute)
                            (dir_value activeAttribute)
                     else (None, attr_read toggle (dir_attribute activeAttribute)))
                  else (None, toggle)) of
              (Some err, t1) \<Rightarrow> (Some err, t1)
            | (None, t1) \<Rightarrow>
                (None, if 0 < length (dir_attribute inactiveAttribute)
                       then removeAttr t1 (dir_attribute inactiveAttribute) else t1))
         else
           (let t1 =
                  (if 0 < length (dir_attribute activeAttribute)
                   then removeAttr toggle (dir_attribute activeAttribute) else toggle)
            in if 0 < length (dir_attribute inactiveAttribute) then
                 (if 0 < length (dir_value inactiveAttribute)
                  then attr_set D t1 (dir_attribute inactiveAttribute)
                         (dir_value inactiveAttribute)
                  else (None, attr_read t1 (dir_attribute inactiveAttribute)))
               else (None, t1)))"

section \<open>Updating the toggled elements\<close>

text \<open>
  \<^verbatim>\<open>update\<close> (lines 190-199): the page is threaded through the loop; \<open>toggles\<close> are
  positions in the page. A throw ends the loop and leaves the page as it is then.
\<close>

fun update ::
  "engine \<Rightarrow> document \<Rightarrow> attribute_names \<Rightarrow> nat list \<Rightarrow> jsval list \<Rightarrow> element list \<Rightarrow>
   js_error option \<times> element list" where
  "update E D A [] inputValues p = (None, p)"
| "update E D A (t # ts) inputValues p =
     (case determineActive E A (p ! t) inputValues of
        Inl err \<Rightarrow> (Some err, p)
      | Inr isActive \<Rightarrow>
          (case toggleAttribute D A
                  (toggleClass A (determineActive_state E A (p ! t)) isActive) isActive of
             (Some err, e) \<Rightarrow> (Some err, p[t := e])
           | (None, e) \<Rightarrow> update E D A ts inputValues (p[t := e])))"

section \<open>Collecting the values of the inputs\<close>

text \<open>
  \<^verbatim>\<open>$scope.find(selector)\<close>: the descendants of the scope that match, in document
  order. A scope is the set of the positions of its descendants.
\<close>

definition find_in :: "element list \<Rightarrow> nat set \<Rightarrow> (element \<Rightarrow> bool) \<Rightarrow> nat list" where
  "find_in p scope matches = filter (\<lambda>i. i \<in> scope \<and> matches (p ! i)) [0..<length p]"

text \<open>
  The selector \<^verbatim>\<open>'[name="' + inputName + '"]'\<close>. The name is pasted in as it is. If
  it has no double quote, no backslash and no control character, the selector compares
  the attribute \<^verbatim>\<open>name\<close> with it. Otherwise the quoted text ends early or has an
  escape, and the document says what the selector matches, if anything.
\<close>

definition named :: "string \<Rightarrow> element \<Rightarrow> bool" where
  "named inputName e = (attrs e ''name'' = Some inputName)"

definition selector_safe :: "string \<Rightarrow> bool" where
  "selector_safe n =
     list_all (\<lambda>c. c \<noteq> CHR 0x22 \<and> c \<noteq> CHR 0x5C \<and> c \<noteq> CHR 0x7F \<and> 32 \<le> (of_char c :: nat)) n"

definition find_named :: "document \<Rightarrow> element list \<Rightarrow> nat set \<Rightarrow> string \<Rightarrow> nat list option" where
  "find_named D p scope inputName =
     (if selector_safe inputName then Some (find_in p scope (named inputName))
      else (case odd_selector D inputName p of
              None \<Rightarrow> None
            | Some matched \<Rightarrow> Some (filter (\<lambda>i. i \<in> scope \<and> i \<in> matched) [0..<length p])))"

definition array_items :: "jsval \<Rightarrow> jsval list" where
  "array_items v = (case v of JArr xs \<Rightarrow> xs | _ \<Rightarrow> [])"

text \<open>\<^verbatim>\<open>getInputValues\<close> (lines 200-224): the body of its loop, and the function.\<close>

definition push_input :: "jsval list \<Rightarrow> input_state \<Rightarrow> jsval list" where
  "push_input inputValues input =
     (let inputValue = val input in
      if etype input = ''checkbox'' \<or> etype input = ''radio'' then
        (if checked input then inputValues @ [inputValue] else inputValues)
      else if isArray inputValue then inputValues @ array_items inputValue
      else inputValues @ [inputValue])"

definition getInputValues ::
  "document \<Rightarrow> string \<Rightarrow> nat set \<Rightarrow> element list \<Rightarrow> js_error + jsval list" where
  "getInputValues D inputName scope p =
     (case find_named D p scope inputName of
        None \<Rightarrow> Inl Selector_syntax_error
      | Some inputs \<Rightarrow>
          Inr (if 0 < length inputs then foldl push_input [] (map (form_state D p) inputs)
               else []))"

section \<open>Initialisation\<close>

text \<open>\<^verbatim>\<open>validateToggle\<close> (lines 158-189).\<close>

definition attr_length :: "element \<Rightarrow> string \<Rightarrow> nat" where
  "attr_length e n = length (text_of (attr_get e n))"

definition validateToggle :: "attribute_names \<Rightarrow> element \<Rightarrow> bool" where
  "validateToggle A toggle =
     (((is_attr toggle (activeValue A) \<and> 0 < attr_length toggle (activeValue A)) \<or>
       (is_attr toggle (inactiveValue A) \<and> 0 < attr_length toggle (inactiveValue A))) \<and>
      ((is_attr toggle (activeClass A) \<and> 0 < attr_length toggle (activeClass A)) \<or>
       (is_attr toggle (inactiveClass A) \<and> 0 < attr_length toggle (inactiveClass A)) \<or>
       (is_attr toggle (activeAttribute A) \<and> 0 < attr_length toggle (activeAttribute A)) \<or>
       (is_attr toggle (inactiveAttribute A) \<and> 0 < attr_length toggle (inactiveAttribute A))))"







text \<open>
  The object \<^verbatim>\<open>toggles\<close> of \<^verbatim>\<open>init\<close>, as the list of its own properties in the order
  of their creation. Reading \<^verbatim>\<open>toggles['__proto__']\<close> gives \<^verbatim>\<open>Object.prototype\<close>,
  an object that has no \<^verbatim>\<open>push\<close>.
\<close>

type_synonym toggle_groups = "(string \<times> nat list) list"









text \<open>
  \<^verbatim>\<open>$(this).off('change.InputToggle').on('change.InputToggle', f)\<close>: the bindings for
  the event \<^verbatim>\<open>change\<close> in the namespace \<^verbatim>\<open>InputToggle\<close> are removed from the element,
  then the new one is added after the bindings that remain.
\<close>

definition change_binding :: "callback \<Rightarrow> binding" where
  "change_binding f = \<lparr> ev_type = ''change'', ev_namespaces = [''InputToggle''], ev_callback = f \<rparr>"

definition in_namespace :: "binding \<Rightarrow> bool" where
  "in_namespace b = (ev_type b = ''change'' \<and> ''InputToggle'' \<in> set (ev_namespaces b))"

definition off :: "element \<Rightarrow> element" where
  "off e = e\<lparr>bindings := filter (\<lambda>b. \<not> in_namespace b) (bindings e)\<rparr>"

definition on :: "element \<Rightarrow> callback \<Rightarrow> element" where
  "on e f = e\<lparr>bindings := bindings e @ [change_binding f]\<rparr>"

definition bind_input :: "callback \<Rightarrow> element list \<Rightarrow> nat \<Rightarrow> element list" where
  "bind_input f p i = p[i := on (off (p ! i)) f]"

text \<open>
  Lines 136-151 of \<^verbatim>\<open>init\<close>: the body of the loop over the groups, and the loop. A
  throw ends the loop and leaves the page as it is then.
\<close>

definition init_group ::
  "engine \<Rightarrow> document \<Rightarrow> attribute_names \<Rightarrow> nat set \<Rightarrow> string \<times> nat list \<Rightarrow> element list \<Rightarrow>
   js_error option \<times> element list" where
  "init_group E D A scope entry p =
     (let inputName = fst entry;
          inputToggles = snd entry
      in case find_named D p scope inputName of
           None \<Rightarrow> (Some Selector_syntax_error, p)
         | Some inputs \<Rightarrow>
             if 0 < length inputs then
               (let p1 = foldl (bind_input (Update_toggles inputToggles inputName scope)) p inputs
                in case getInputValues D inputName scope p1 of
                     Inl err \<Rightarrow> (Some err, p1)
                   | Inr inputValues \<Rightarrow> update E D A inputToggles inputValues p1)
             else (None, p))"

fun init_groups ::
  "engine \<Rightarrow> document \<Rightarrow> attribute_names \<Rightarrow> nat set \<Rightarrow> toggle_groups \<Rightarrow> element list \<Rightarrow>
   js_error option \<times> element list" where
  "init_groups E D A scope [] p = (None, p)"
| "init_groups E D A scope (entry # groups) p =
     (case init_group E D A scope entry p of
        (Some err, p') \<Rightarrow> (Some err, p')
      | (None, p') \<Rightarrow> init_groups E D A scope groups p')"





section \<open>The specification's notions\<close>

text \<open>A marker attribute is configured on an element when it is there and not empty.\<close>

definition configured :: "element \<Rightarrow> string \<Rightarrow> bool" where
  "configured e n = (case attrs e n of None \<Rightarrow> False | Some v \<Rightarrow> v \<noteq> [])"



text \<open>The class names of an element, and its attributes other than \<^verbatim>\<open>class\<close>.\<close>

definition class_names :: "element \<Rightarrow> string set" where
  "class_names e = set (tokens (getClass e))"

definition other_attrs :: "element \<Rightarrow> string \<rightharpoonup> string" where
  "other_attrs e = (attrs e)(''class'' := None)"

text \<open>
  The plan of \<^verbatim>\<open>update\<close> for one element and a given activity: \<^verbatim>\<open>toggleClass\<close>, then
  \<^verbatim>\<open>toggleAttribute\<close>; the error, if it threw, and the element as it leaves it.
\<close>

definition apply_plan ::
  "document \<Rightarrow> attribute_names \<Rightarrow> element \<Rightarrow> bool \<Rightarrow> js_error option \<times> element" where
  "apply_plan D A toggle isActive =
     toggleAttribute D A (toggleClass A toggle (JBool isActive)) (JBool isActive)"

text \<open>
  Whether jQuery remembers a criterion for a marker of the element: the marker is read
  with \<^verbatim>\<open>.data()\<close>, and there is a truthy value under its key.
\<close>

definition remembered :: "element \<Rightarrow> string \<Rightarrow> bool" where
  "remembered e n =
     (take 5 n = ''data-'' \<and>
      (case data_cache e (camelCase (drop 5 n)) of None \<Rightarrow> False | Some v \<Rightarrow> truthy v))"

text \<open>
  The names of markers for which the model's reading of the markers is jQuery's: a
  lower case letter, then lower case letters, digits, \<^verbatim>\<open>-\<close> and \<^verbatim>\<open>_\<close>; no boolean
  attribute; and, because \<^verbatim>\<open>init\<close> reads the marker \<open>toggled\<close> as
  \<^verbatim>\<open>this.attributes[name]\<close>, none of the names under which the attribute collection
  of an element has a property of its own. The default names are such names.
\<close>

definition marker_char :: "char \<Rightarrow> bool" where
  "marker_char c = (is_lower c \<or> is_digit c \<or> c = CHR ''-'' \<or> c = CHR ''_'')"

definition marker_ok :: "string \<Rightarrow> bool" where
  "marker_ok n =
     (n \<noteq> [] \<and> is_lower (hd n) \<and> list_all marker_char n \<and> \<not> boolean_attribute n \<and>
      n \<notin> set [''length'', ''item'', ''constructor''])"

definition markers_ok :: "attribute_names \<Rightarrow> bool" where
  "markers_ok A =
     list_all marker_ok
       [toggled A, activeValue A, inactiveValue A, activeClass A, inactiveClass A,
        activeAttribute A, inactiveAttribute A]"

text \<open>
  Two elements in the same state: the same class names, and everything else the same.
\<close>

definition without_classes :: "element \<Rightarrow> element" where
  "without_classes e = e\<lparr>attrs := other_attrs e\<rparr>"

definition same_state :: "element \<Rightarrow> element \<Rightarrow> bool" where
  "same_state e e' =
     (class_names e = class_names e' \<and> without_classes e = without_classes e')"

text \<open>
  The name of an attribute that a directive may toggle without touching the target's
  configuration or its classes: no name at all, or a name that the DOM takes and that
  is, in lower case, neither \<^verbatim>\<open>class\<close> nor one of the four directive markers.
\<close>

definition plain_name :: "document \<Rightarrow> attribute_names \<Rightarrow> string \<Rightarrow> bool" where
  "plain_name D A n =
     ((n = [] \<or> name_accepted D n) \<and>
      dom_name n \<notin> set [''class'', activeClass A, inactiveClass A, activeAttribute A,
                         inactiveAttribute A])"

text \<open>
  A target whose directives are apart from its configuration: the markers are names
  that the model reads as jQuery does, the directive markers are not \<^verbatim>\<open>class\<close>, both
  attribute directives have plain names, and the inactive-attribute directive, if
  there is one, has a value.
\<close>

definition directives_apart :: "document \<Rightarrow> attribute_names \<Rightarrow> element \<Rightarrow> bool" where
  "directives_apart D A e =
     (markers_ok A \<and>
      ''class'' \<notin> set [activeClass A, inactiveClass A, activeAttribute A, inactiveAttribute A] \<and>
      plain_name D A (dir_attribute (parseToggleAttribute e (activeAttribute A))) \<and>
      plain_name D A (dir_attribute (parseToggleAttribute e (inactiveAttribute A))) \<and>
      (dir_attribute (parseToggleAttribute e (inactiveAttribute A)) = [] \<or>
       dir_value (parseToggleAttribute e (inactiveAttribute A)) \<noteq> []))"

text \<open>
  The attributes that the plan for an activity leaves, given the two directives: the
  attribute of the directive of the other activity is removed, and the attribute of the
  directive of this activity is set if the directive has a value. The attribute is the
  one of the directive's name in lower case, and the text written is the value, or
  the name if jQuery treats the attribute as boolean.
\<close>

definition directive_key :: "directive \<Rightarrow> string" where
  "directive_key d = dom_name (dir_attribute d)"

definition directive_text :: "directive \<Rightarrow> string" where
  "directive_text d =
     (if boolean_attribute (dir_attribute d) then dir_attribute d else dir_value d)"

definition planned_attrs ::
  "directive \<Rightarrow> directive \<Rightarrow> bool \<Rightarrow> (string \<rightharpoonup> string) \<Rightarrow> (string \<rightharpoonup> string)" where
  "planned_attrs da di isActive m =
     (if isActive then
        (\<lambda>k. if dir_attribute di \<noteq> [] \<and> k = directive_key di then None
             else if dir_attribute da \<noteq> [] \<and> dir_value da \<noteq> [] \<and> k = directive_key da
               then Some (directive_text da)
             else m k)
      else
        (\<lambda>k. if dir_attribute di \<noteq> [] \<and> dir_value di \<noteq> [] \<and> k = directive_key di
               then Some (directive_text di)
             else if dir_attribute da \<noteq> [] \<and> k = directive_key da then None
             else m k))"

text \<open>The class names that a marker of the target lists.\<close>

definition listed_classes :: "element \<Rightarrow> string \<Rightarrow> string set" where
  "listed_classes e marker = set (tokens (attr_or_empty e marker))"






definition foreign_bindings :: "element \<Rightarrow> binding list" where
  "foreign_bindings e = filter (\<lambda>b. \<not> in_namespace b) (bindings e)"

text \<open>
  An element after a step, compared with the element before: its bindings are the same,
  or they are the bindings outside the namespace that it had, followed by one binding
  as \<^verbatim>\<open>init\<close> makes it.
\<close>

definition rebound :: "element \<Rightarrow> element \<Rightarrow> bool" where
  "rebound e e' =
     (bindings e' = bindings e \<or>
      bindings e' =
        foreign_bindings e @ [change_binding (ev_callback (last (bindings e')))])"



text \<open>The seven marker roles, the name each has, and the name an override gives it.\<close>

datatype marker =
    Toggled
  | Active_value
  | Inactive_value
  | Active_class
  | Inactive_class
  | Active_attribute
  | Inactive_attribute




section \<open>Example pages\<close>

text \<open>
  An engine for the examples, none of which has a fraction, an exponent or JSON in an
  attribute.
\<close>

definition example_engine :: engine where
  "example_engine = \<lparr> number_roundtrips = (\<lambda>s. False), JSON_parse = (\<lambda>s. None) \<rparr>"

definition plain_element :: "(string \<rightharpoonup> string) \<Rightarrow> element" where
  "plain_element m = \<lparr> attrs = m, bindings = [], data_cache = Map.empty \<rparr>"




text \<open>What the DOM reports for such inputs, and for an element that is no input.\<close>

definition checkbox_state :: "string \<Rightarrow> bool \<Rightarrow> input_state" where
  "checkbox_state v c = \<lparr> etype = ''checkbox'', checked = c, val = JStr v \<rparr>"



definition no_input :: input_state where
  "no_input = \<lparr> etype = [], checked = False, val = JStr [] \<rparr>"

text \<open>
  A document for the examples: it reports the form states of a table, by position; of
  the names of attributes on which the versions of the DOM differ it takes none; and
  the one odd selector of the examples, for the input name \<^verbatim>\<open>a"b\<close>, is a syntax
  error.
\<close>

definition document_of :: "input_state list \<Rightarrow> document" where
  "document_of states =
     \<lparr> accepts_name = (\<lambda>n. False),
       odd_selector = (\<lambda>n p. None),
       form_state = (\<lambda>p i. if i < length states then states ! i else no_input) \<rparr>"

text \<open>A target for the value \<^verbatim>\<open>0\<close> of the inputs named \<^verbatim>\<open>agree\<close>.\<close>

definition zero_toggle :: element where
  "zero_toggle =
     plain_element [''data-input-toggle'' \<mapsto> ''agree'',
       ''data-input-toggle-active-value'' \<mapsto> ''0'',
       ''data-input-toggle-active-class'' \<mapsto> ''visible'']"

text \<open>A target whose attribute directive has two \<^verbatim>\<open>=\<close>.\<close>

definition directive_toggle :: element where
  "directive_toggle =
     plain_element [''data-input-toggle'' \<mapsto> ''agree'',
       ''data-input-toggle-active-value'' \<mapsto> ''1'',
       ''data-input-toggle-active-attribute'' \<mapsto> ''data-x=1=2'']"

text \<open>A target whose attribute directive names an attribute and gives no value.\<close>

definition disabled_toggle :: element where
  "disabled_toggle =
     plain_element [''data-input-toggle'' \<mapsto> ''agree'',
       ''data-input-toggle-active-value'' \<mapsto> ''1'',
       ''data-input-toggle-active-attribute'' \<mapsto> ''disabled'']"


text \<open>A target with no criterion.\<close>

definition locked_toggle :: element where
  "locked_toggle =
     plain_element [''data-input-toggle'' \<mapsto> ''agree'',
       ''data-input-toggle-inactive-class'' \<mapsto> ''locked'']"

text \<open>A target that carries its active class in the markup.\<close>

definition visible_toggle :: element where
  "visible_toggle =
     plain_element [''data-input-toggle'' \<mapsto> ''agree'',
       ''data-input-toggle-active-value'' \<mapsto> ''1'',
       ''data-input-toggle-active-class'' \<mapsto> ''visible'',
       ''class'' \<mapsto> ''visible'']"

text \<open>A well-formed target with classes and attribute directives.\<close>

definition panel_toggle :: element where
  "panel_toggle =
     plain_element [''data-input-toggle'' \<mapsto> ''agree'',
       ''data-input-toggle-active-value'' \<mapsto> ''1'',
       ''data-input-toggle-active-class'' \<mapsto> ''visible'',
       ''data-input-toggle-inactive-class'' \<mapsto> ''hidden'',
       ''data-input-toggle-active-attribute'' \<mapsto> ''aria-expanded=true'',
       ''class'' \<mapsto> ''panel'']"


definition example_document :: document where
  "example_document = document_of [checkbox_state ''1'' True, no_input, no_input]"
















section \<open>Matching the values against a criterion\<close>

lemma index_found_strs: "index_found (map JStr V) (JStr c) = (c \<in> set V)"
  by (induction V) (auto simp: index_found_def)

lemma jq_filter_strs:
  "jq_filter (map JStr C) (map JStr V) = map JStr (filter (\<lambda>c. c \<in> set V) C)"
  by (induction C) (auto simp: jq_filter_def index_found_strs)

lemma hasInputValues_scalar:
  "toString t = Inr s \<Longrightarrow> \<not> isArray t \<Longrightarrow>
   hasInputValues (map JStr V) t = Inr (s \<in> set V)"
  by (cases t) (auto simp: hasInputValues_def isArray_def jq_filter_def index_found_strs)

lemma hasInputValues_array:
  "hasInputValues (map JStr V) (JArr (map JStr C)) = Inr (set V \<inter> set C \<noteq> {})"
  by (auto simp: hasInputValues_def jq_filter_strs filter_empty_conv)

text \<open>
  C2. For input values \<open>V\<close> that are strings, \<^verbatim>\<open>hasInputValues\<close> returns a boolean and
  never an error: for a scalar criterion (a string, a number or a boolean) it tells
  whether the criterion's text is among \<open>V\<close>, and for an array of strings whether the
  array and \<open>V\<close> have a member in common, wherever and however often it occurs. With no
  input values, or with an empty array, the answer is \<open>False\<close>.
\<close>

theorem hasInputValues_intersects:
  "hasInputValues (map JStr V) (JStr c) = Inr (c \<in> set V) \<and>
   hasInputValues (map JStr V) (JNum c) = Inr (c \<in> set V) \<and>
   hasInputValues (map JStr V) (JBool b) = Inr (text_of (JBool b) \<in> set V) \<and>
   hasInputValues (map JStr V) (JArr (map JStr C)) = Inr (set V \<inter> set C \<noteq> {}) \<and>
   hasInputValues [] (JArr (map JStr C)) = Inr False \<and>
   hasInputValues (map JStr V) (JArr []) = Inr False"
proof -
  have a: "hasInputValues (map JStr V) (JStr c) = Inr (c \<in> set V)"
    by (rule hasInputValues_scalar) (simp_all add: toString_def isArray_def)
  have b: "hasInputValues (map JStr V) (JNum c) = Inr (c \<in> set V)"
    by (rule hasInputValues_scalar) (simp_all add: toString_def isArray_def)
  have c: "hasInputValues (map JStr V) (JBool b) = Inr (text_of (JBool b) \<in> set V)"
    by (rule hasInputValues_scalar) (simp_all add: toString_def isArray_def)
  have d: "hasInputValues (map JStr []) (JArr (map JStr C)) = Inr False"
    by (simp only: hasInputValues_array) simp
  have e: "hasInputValues (map JStr V) (JArr (map JStr [])) = Inr False"
    by (simp only: hasInputValues_array) simp
  from a b c d e show ?thesis
    by (simp add: hasInputValues_array)
qed

theorem hasInputValues_intersects_witness:
  "hasInputValues [JStr ''a'', JStr ''b''] (JArr [JStr ''a'', JStr ''c'']) = Inr True \<and>
   hasInputValues [JStr ''a'', JStr ''b''] (JStr ''c'') = Inr False"
  using hasInputValues_intersects [of "[''a'', ''b'']" "''c''" True "[''a'', ''c'']"]
  by simp

section \<open>The activity of a target\<close>

lemmas attr_defs = is_attr_def attr_get_def attr_or_empty_def attr_length_def plain_element_def

text \<open>
  C1. The claim is that a target with an active-value criterion is active exactly when
  the input values meet the criterion. The target \<open>zero_toggle\<close> passes
  \<^verbatim>\<open>validateToggle\<close> with the criterion \<^verbatim>\<open>0\<close>, and the input value \<^verbatim>\<open>0\<close> meets that
  criterion; but jQuery's \<^verbatim>\<open>.data()\<close> hands the criterion over as the number 0, which
  the test \<^verbatim>\<open>if (activeValues)\<close> takes for a missing criterion, so that
  \<^verbatim>\<open>determineActive\<close> returns \<^verbatim>\<open>undefined\<close>.
\<close>

theorem determineActive_zero_criterion:
  "validateToggle default_attributes zero_toggle \<and>
   hasInputValues [JStr ''0''] (JStr ''0'') = Inr True \<and>
   determineActive E default_attributes zero_toggle [JStr ''0''] = Inr JUndefined"
proof -
  have v: "validateToggle default_attributes zero_toggle"
    by (simp add: validateToggle_def default_attributes_def zero_toggle_def attr_defs)
  have h: "hasInputValues [JStr ''0''] (JStr ''0'') = Inr True"
    by (simp add: hasInputValues_def toString_def jq_filter_def index_found_def)
  have a: "getAttributeValue E zero_toggle (activeValue default_attributes) = JNum ''0''"
    by (simp add: getAttributeValue_def default_attributes_def zero_toggle_def attr_defs
        jq_data_def data_attribute_def is_upper_def
        getData_def is_number_text_def integer_literal_def natural_literal_def)
  have i: "getAttributeValue E x (inactiveValue default_attributes) = JBool False"
    if "attrs x = attrs zero_toggle" for x
    using that
    by (simp add: getAttributeValue_def default_attributes_def zero_toggle_def attr_defs)
  have s: "attrs (getAttributeValue_state E zero_toggle (activeValue default_attributes)) =
           attrs zero_toggle"
    by (simp add: getAttributeValue_state_def jq_data_state_def split: option.splits)
  have d: "determineActive E default_attributes zero_toggle [JStr ''0''] = Inr JUndefined"
    by (simp add: determineActive_def a i [OF s])
  from v h d show ?thesis by simp
qed

section \<open>Attribute directives\<close>

text \<open>
  C3. The claim is that the directive \<^verbatim>\<open>data-x=1=2\<close> has the name \<^verbatim>\<open>data-x\<close> and the
  value \<^verbatim>\<open>1=2\<close>. \<^verbatim>\<open>parseToggleAttribute\<close> splits at every \<^verbatim>\<open>=\<close> and takes the
  second piece for the value, which is \<^verbatim>\<open>1\<close>.
\<close>

theorem parseToggleAttribute_second_equals:
  "parseToggleAttribute directive_toggle (activeAttribute default_attributes) =
     \<lparr> dir_attribute = ''data-x'', dir_value = ''1'' \<rparr>"
  by (simp add: parseToggleAttribute_def default_attributes_def directive_toggle_def attr_defs)

text \<open>
  C4. The claim is that an active directive without a value puts its attribute on an
  active target. For the directive \<^verbatim>\<open>disabled\<close>, \<^verbatim>\<open>toggleAttribute\<close> calls
  \<^verbatim>\<open>.attr('disabled')\<close>, which reads the attribute: the target is left as it was,
  without the attribute.
\<close>

theorem toggleAttribute_presence_only:
  "parseToggleAttribute disabled_toggle (activeAttribute default_attributes) =
     \<lparr> dir_attribute = ''disabled'', dir_value = [] \<rparr> \<and>
   toggleAttribute D default_attributes disabled_toggle (JBool True) = (None, disabled_toggle) \<and>
   attrs (snd (toggleAttribute D default_attributes disabled_toggle (JBool True))) ''disabled'' =
     None"
  by (simp add: toggleAttribute_def parseToggleAttribute_def default_attributes_def
      disabled_toggle_def attr_defs attr_read_def)

section \<open>The collected values\<close>





section \<open>Targets without a criterion\<close>

lemma getData_empty: "getData E [] = JStr []"
  by (simp add: getData_def is_number_text_def integer_literal_def natural_literal_def rbrace_def)

lemma marker_char_not_upper: "marker_char c \<Longrightarrow> \<not> is_upper c"
  by (auto simp: marker_char_def is_upper_def is_lower_def is_digit_def)

lemma data_attribute_lower:
  "list_all (\<lambda>c. \<not> is_upper c) k \<Longrightarrow> data_attribute k = ''data-'' @ k"
  unfolding data_attribute_def
  by (induction k) simp_all

lemma data_attribute_marker:
  assumes "marker_ok n" and "take 5 n = ''data-''"
  shows "data_attribute (drop 5 n) = n"
proof -
  from assms(1) have "list_all (\<lambda>c. \<not> is_upper c) n"
    by (auto simp: marker_ok_def list_all_iff dest: marker_char_not_upper)
  then have "list_all (\<lambda>c. \<not> is_upper c) (drop 5 n)"
    by (auto simp: list_all_iff dest: in_set_dropD)
  then have "data_attribute (drop 5 n) = ''data-'' @ drop 5 n"
    by (rule data_attribute_lower)
  with assms(2) show ?thesis by (metis append_take_drop_id)
qed

lemma getAttributeValue_unconfigured:
  assumes "marker_ok n" and "\<not> configured e n" and "\<not> remembered e n"
  shows "\<not> truthy (getAttributeValue E e n)"
proof (cases "attrs e n")
  case None
  then show ?thesis by (simp add: getAttributeValue_def is_attr_def)
next
  case (Some v)
  with assms(2) have v: "v = []" by (simp add: configured_def)
  show ?thesis
  proof (cases "take 5 n = ''data-''")
    case True
    from data_attribute_marker [OF assms(1) True] Some v True assms(3) show ?thesis
      by (simp add: getAttributeValue_def is_attr_def jq_data_def getData_empty remembered_def
          split: option.splits)
  next
    case False
    with Some v show ?thesis
      by (simp add: getAttributeValue_def is_attr_def attr_get_def)
  qed
qed

lemma state_attrs [simp]: "attrs (getAttributeValue_state E e n) = attrs e"
  by (simp add: getAttributeValue_state_def jq_data_state_def split: option.splits)

lemma state_bindings [simp]: "bindings (getAttributeValue_state E e n) = bindings e"
  by (simp add: getAttributeValue_state_def jq_data_state_def split: option.splits)

lemma state_configured [simp]: "configured (getAttributeValue_state E e n) m = configured e m"
  by (simp add: configured_def)

lemma state_remembered:
  assumes "marker_ok n" and "\<not> configured e n" and "\<not> remembered e m"
  shows "\<not> remembered (getAttributeValue_state E e n) m"
proof (cases "is_attr e n \<and> take 5 n = ''data-''")
  case False
  with assms(3) show ?thesis by (auto simp add: getAttributeValue_state_def)
next
  case True
  then obtain v where a: "attrs e n = Some v" by (auto simp: is_attr_def)
  with assms(2) have v: "v = []" by (simp add: configured_def)
  from True have d: "data_attribute (drop 5 n) = n"
    using data_attribute_marker [OF assms(1)] by simp
  from True a v d assms(3) show ?thesis
    by (auto simp: getAttributeValue_state_def jq_data_state_def remembered_def getData_empty
        split: option.splits)
qed

lemma determineActive_unconfigured:
  assumes "marker_ok (activeValue A)" and "marker_ok (inactiveValue A)"
    and "\<not> configured e (activeValue A)" and "\<not> configured e (inactiveValue A)"
    and "\<not> remembered e (activeValue A)" and "\<not> remembered e (inactiveValue A)"
  shows "determineActive E A e V = Inr JUndefined"
proof -
  have a: "\<not> truthy (getAttributeValue E e (activeValue A))"
    using assms(1,3,5) by (rule getAttributeValue_unconfigured)
  have "\<not> remembered (getAttributeValue_state E e (activeValue A)) (inactiveValue A)"
    using assms(1,3,6) by (rule state_remembered)
  with assms(2,4)
  have i: "\<not> truthy (getAttributeValue E (getAttributeValue_state E e (activeValue A))
             (inactiveValue A))"
    by (intro getAttributeValue_unconfigured) simp_all
  from a i show ?thesis by (simp add: determineActive_def Let_def)
qed

lemma toggleClass_truthy:
  "truthy a = truthy b \<Longrightarrow> toggleClass A e a = toggleClass A e b"
  by (simp add: toggleClass_def)

lemma toggleAttribute_truthy:
  "truthy a = truthy b \<Longrightarrow> toggleAttribute D A e a = toggleAttribute D A e b"
  by (simp add: toggleAttribute_def)

text \<open>
  C7, as the code has it. Take marker names that the model reads as jQuery does, and a
  target on which neither criterion is configured and for which jQuery remembers none.
  Then \<^verbatim>\<open>determineActive\<close> returns \<^verbatim>\<open>undefined\<close>, and \<^verbatim>\<open>update\<close> does to the target
  what the plan for \<open>isActive = False\<close> does, to its result and to its error if it
  throws: \<^verbatim>\<open>undefined\<close> is taken for inactive. The two reads of the criteria leave the
  attributes and the bindings of the target as they were.
\<close>

theorem update_indeterminate_is_inactive:
  assumes "markers_ok A"
    and "\<not> configured (p ! t) (activeValue A)"
    and "\<not> configured (p ! t) (inactiveValue A)"
    and "\<not> remembered (p ! t) (activeValue A)"
    and "\<not> remembered (p ! t) (inactiveValue A)"
  shows "determineActive E A (p ! t) V = Inr JUndefined \<and>
         update E D A [t] V p =
           (fst (apply_plan D A (determineActive_state E A (p ! t)) False),
            p[t := snd (apply_plan D A (determineActive_state E A (p ! t)) False)]) \<and>
         attrs (determineActive_state E A (p ! t)) = attrs (p ! t) \<and>
         bindings (determineActive_state E A (p ! t)) = bindings (p ! t)"
proof -
  from assms(1) have m: "marker_ok (activeValue A)" "marker_ok (inactiveValue A)"
    by (simp_all add: markers_ok_def)
  have d: "determineActive E A (p ! t) V = Inr JUndefined"
    using m assms(2-5) by (rule determineActive_unconfigured)
  let ?e = "determineActive_state E A (p ! t)"
  have c: "toggleClass A ?e JUndefined = toggleClass A ?e (JBool False)"
    by (rule toggleClass_truthy) simp
  have a: "toggleAttribute D A (toggleClass A ?e (JBool False)) JUndefined =
           toggleAttribute D A (toggleClass A ?e (JBool False)) (JBool False)"
    by (rule toggleAttribute_truthy) simp
  have u: "update E D A [t] V p =
           (fst (apply_plan D A ?e False), p[t := snd (apply_plan D A ?e False)])"
    by (simp add: d c a apply_plan_def split: prod.splits option.splits)
  have s: "attrs ?e = attrs (p ! t)" "bindings ?e = bindings (p ! t)"
    by (simp_all add: determineActive_state_def)
  from d u s show ?thesis by simp
qed

lemma locked_unconfigured:
  "markers_ok default_attributes \<and>
   \<not> configured locked_toggle (activeValue default_attributes) \<and>
   \<not> configured locked_toggle (inactiveValue default_attributes) \<and>
   \<not> remembered locked_toggle (activeValue default_attributes) \<and>
   \<not> remembered locked_toggle (inactiveValue default_attributes)"
  by code_simp

lemma locked_state:
  "determineActive_state example_engine default_attributes locked_toggle = locked_toggle"
  by (simp add: determineActive_state_def getAttributeValue_state_def is_attr_def
      locked_toggle_def plain_element_def default_attributes_def)

lemma locked_plan:
  "fst (apply_plan example_document default_attributes locked_toggle False) = None \<and>
   attrs (snd (apply_plan example_document default_attributes locked_toggle False)) ''class'' =
     Some ''locked''"
  by code_simp

theorem update_indeterminate_is_inactive_witness:
  "update example_engine example_document default_attributes [0] [JStr ''1''] [locked_toggle] =
     (None, [snd (apply_plan example_document default_attributes locked_toggle False)]) \<and>
   attrs (snd (apply_plan example_document default_attributes locked_toggle False)) ''class'' =
     Some ''locked''"
proof -
  from locked_unconfigured
  have m: "markers_ok default_attributes"
    and a: "\<not> configured ([locked_toggle] ! 0) (activeValue default_attributes)"
    and b: "\<not> configured ([locked_toggle] ! 0) (inactiveValue default_attributes)"
    and c: "\<not> remembered ([locked_toggle] ! 0) (activeValue default_attributes)"
    and d: "\<not> remembered ([locked_toggle] ! 0) (inactiveValue default_attributes)"
    by simp_all
  from update_indeterminate_is_inactive [OF m a b c d, of example_engine "[JStr ''1'']"
      example_document]
  have "update example_engine example_document default_attributes [0] [JStr ''1'']
          [locked_toggle] =
        (fst (apply_plan example_document default_attributes
                (determineActive_state example_engine default_attributes ([locked_toggle] ! 0))
                False),
         [locked_toggle]
           [0 := snd (apply_plan example_document default_attributes
                 (determineActive_state example_engine default_attributes ([locked_toggle] ! 0))
                 False)])"
    by blast
  then have "update example_engine example_document default_attributes [0] [JStr ''1'']
          [locked_toggle] =
        (fst (apply_plan example_document default_attributes locked_toggle False),
         [snd (apply_plan example_document default_attributes locked_toggle False)])"
    by (simp only: nth_Cons_0 list_update_code locked_state)
  with locked_plan show ?thesis by simp
qed

text \<open>
  The claim C7 itself fails on \<open>locked_toggle\<close>, which has no criterion: \<^verbatim>\<open>update\<close>
  gives it the class \<^verbatim>\<open>locked\<close>.
\<close>

theorem update_indeterminate_counterexample:
  "\<not> configured locked_toggle (activeValue default_attributes) \<and>
   \<not> configured locked_toggle (inactiveValue default_attributes) \<and>
   attrs locked_toggle ''class'' = None \<and>
   fst (update example_engine example_document default_attributes [0] [JStr ''1'']
          [locked_toggle]) = None \<and>
   attrs (snd (update example_engine example_document default_attributes [0] [JStr ''1'']
                 [locked_toggle]) ! 0) ''class'' = Some ''locked''"
  by code_simp

section \<open>Which targets are accepted\<close>








lemma map_update_same: "(map f p)[t := f (p ! t)] = map f p"
  by (metis list_update_id map_update)




lemma update_length: "length (snd (update E D A ts V p)) = length p"
  by (induction ts arbitrary: p) (auto split: sum.splits prod.splits option.splits)



lemma bind_input_attrs: "map attrs (bind_input f p i) = map attrs p"
  by (simp add: bind_input_def map_update on_def off_def map_update_same)

lemma bind_inputs_attrs: "map attrs (foldl (bind_input f) p is) = map attrs p"
  by (induction "is" arbitrary: p) (simp_all add: bind_input_attrs)

lemma bind_inputs_length: "length (foldl (bind_input f) p is) = length p"
  using bind_inputs_attrs [of f p "is"] by (metis length_map)


lemma init_group_length: "length (snd (init_group E D A scope entry p)) = length p"
  by (simp add: init_group_def Let_def update_length bind_inputs_length
      split: option.splits sum.splits)


lemma init_groups_length: "length (snd (init_groups E D A scope groups p)) = length p"
proof (induction groups arbitrary: p)
  case Nil
  show ?case by simp
next
  case (Cons entry groups)
  show ?case
  proof (cases "init_group E D A scope entry p")
    case (Pair err p')
    with init_group_length [of E D A scope entry p] have "length p' = length p" by simp
    with Pair Cons show ?thesis by (cases err) simp_all
  qed
qed








section \<open>The group mapping\<close>















section \<open>The bindings after a call\<close>

lemma in_namespace_change_binding: "in_namespace (change_binding f)"
  by (simp add: in_namespace_def change_binding_def)

lemma foreign_append_change:
  "filter (\<lambda>b. \<not> in_namespace b) (bs @ [change_binding f]) = filter (\<lambda>b. \<not> in_namespace b) bs"
  by (simp add: in_namespace_change_binding)

lemma bindings_on_off: "bindings (on (off e) f) = foreign_bindings e @ [change_binding f]"
  by (simp add: on_def off_def foreign_bindings_def)



lemma rebound_refl: "rebound e e"
  by (simp add: rebound_def)

lemma rebound_same: "bindings e' = bindings e \<Longrightarrow> rebound e e'"
  by (simp add: rebound_def)

lemma rebound_foreign: "rebound a b \<Longrightarrow> foreign_bindings b = foreign_bindings a"
proof -
  assume "rebound a b"
  then consider "bindings b = bindings a"
    | "bindings b = foreign_bindings a @ [change_binding (ev_callback (last (bindings b)))]"
    by (auto simp: rebound_def)
  then show ?thesis
  proof cases
    case 1
    then show ?thesis by (simp add: foreign_bindings_def)
  next
    case 2
    have "foreign_bindings b = filter (\<lambda>b. \<not> in_namespace b) (bindings b)"
      by (simp add: foreign_bindings_def)
    also have "\<dots> = filter (\<lambda>b. \<not> in_namespace b)
        (foreign_bindings a @ [change_binding (ev_callback (last (bindings b)))])"
      using 2 by simp
    also have "\<dots> = foreign_bindings a"
      by (simp only: foreign_append_change) (simp add: foreign_bindings_def)
    finally show ?thesis .
  qed
qed

lemma rebound_trans:
  assumes "rebound a b" and "rebound b c"
  shows "rebound a c"
proof -
  from assms(2) consider "bindings c = bindings b"
    | "bindings c = foreign_bindings b @ [change_binding (ev_callback (last (bindings c)))]"
    by (auto simp: rebound_def)
  then show ?thesis
  proof cases
    case 1
    with assms(1) show ?thesis by (simp add: rebound_def)
  next
    case 2
    with rebound_foreign [OF assms(1)] show ?thesis by (simp add: rebound_def)
  qed
qed

lemma rebound_on_off: "rebound e (on (off e) f)"
  by (simp add: rebound_def bindings_on_off change_binding_def)


lemma all_rebound_refl: "list_all2 rebound p p"
  by (simp add: list_all2_refl rebound_refl)

lemma all_rebound_trans:
  "list_all2 rebound p q \<Longrightarrow> list_all2 rebound q r \<Longrightarrow> list_all2 rebound p r"
  by (rule list_all2_trans [of rebound rebound rebound]) (auto intro: rebound_trans)

lemma all_rebound_same: "map bindings q = map bindings p \<Longrightarrow> list_all2 rebound p q"
  by (rule list_all2_all_nthI) (auto intro!: rebound_same dest: map_eq_imp_length_eq nth_map
      simp: list_eq_iff_nth_eq)

lemma bind_input_rebound: "list_all2 rebound p (bind_input f p i)"
  unfolding bind_input_def
proof (rule list_all2_all_nthI)
  show "length p = length (p[i := on (off (p ! i)) f])" by simp
next
  fix n
  assume "n < length p"
  then show "rebound (p ! n) (p[i := on (off (p ! i)) f] ! n)"
    by (cases "i = n") (simp_all add: rebound_refl rebound_on_off)
qed

lemma bind_inputs_rebound: "list_all2 rebound p (foldl (bind_input f) p is)"
proof (induction "is" arbitrary: p)
  case Nil
  show ?case by (simp add: all_rebound_refl)
next
  case (Cons i "is")
  from bind_input_rebound [of p f i] Cons [of "bind_input f p i"] show ?case
    by (simp add: all_rebound_trans)
qed
























section \<open>The plan applied twice\<close>

subsection \<open>Class names as text\<close>

lemma tokens_good:
  "t \<in> set (tokens s) \<Longrightarrow> t \<noteq> [] \<and> list_all (\<lambda>c. \<not> is_space c) t"
proof (induction s arbitrary: t rule: tokens.induct)
  case 1
  then show ?case by simp
next
  case (2 c cs)
  show ?case
  proof (cases "is_space c")
    case True
    with 2 show ?thesis by simp
  next
    case False
    with "2.prems" have "t = c # takeWhile (\<lambda>x. \<not> is_space x) cs \<or>
        t \<in> set (tokens (dropWhile (\<lambda>x. \<not> is_space x) cs))"
      by simp
    then show ?thesis
    proof
      assume "t = c # takeWhile (\<lambda>x. \<not> is_space x) cs"
      with False show ?thesis
        by (auto simp: list_all_iff dest: set_takeWhileD)
    next
      assume "t \<in> set (tokens (dropWhile (\<lambda>x. \<not> is_space x) cs))"
      with "2.IH"(2) [OF False] show ?thesis by simp
    qed
  qed
qed

lemma tokens_single:
  assumes "t \<noteq> []" and "list_all (\<lambda>c. \<not> is_space c) t"
  shows "tokens t = [t]"
proof -
  from assms obtain a t' where t: "t = a # t'" by (cases t) auto
  with assms(2) have a: "\<not> is_space a" and r: "\<forall>x\<in>set t'. \<not> is_space x"
    by (simp_all add: list_all_iff)
  from r have tw: "takeWhile (\<lambda>x. \<not> is_space x) t' = t'"
    and dw: "dropWhile (\<lambda>x. \<not> is_space x) t' = []"
    by simp_all
  from a show ?thesis unfolding t by (simp add: tw dw)
qed

lemma tokens_then_space:
  assumes "t \<noteq> []" and "list_all (\<lambda>c. \<not> is_space c) t" and "is_space c"
  shows "tokens (t @ c # rest) = t # tokens rest"
proof -
  from assms obtain a t' where t: "t = a # t'" by (cases t) auto
  with assms(2) have a: "\<not> is_space a" and r: "\<forall>x\<in>set t'. \<not> is_space x"
    by (simp_all add: list_all_iff)
  from r assms(3) have tw: "takeWhile (\<lambda>x. \<not> is_space x) (t' @ c # rest) = t'"
    and dw: "dropWhile (\<lambda>x. \<not> is_space x) (t' @ c # rest) = c # rest"
    by (simp_all add: takeWhile_append2 dropWhile_append2)
  from a assms(3) show ?thesis unfolding t by (simp add: tw dw)
qed

lemma tokens_join_sp:
  "\<forall>t\<in>set ts. t \<noteq> [] \<and> list_all (\<lambda>c. \<not> is_space c) t \<Longrightarrow> tokens (join_sp ts) = ts"
proof (induction ts rule: join_sp.induct)
  case 1
  show ?case by simp
next
  case (2 t)
  then show ?case by (simp add: tokens_single)
next
  case (3 t u ts)
  have sp: "is_space (CHR '' '')" by (simp add: is_space_def)
  from 3 have "tokens (join_sp (u # ts)) = u # ts" by simp
  moreover from "3.prems" have "tokens (t @ CHR '' '' # join_sp (u # ts)) = t # tokens (join_sp (u # ts))"
    by (intro tokens_then_space sp) simp_all
  ultimately show ?case by simp
qed

lemma tokens_join_tokens: "tokens (join_sp (tokens s)) = tokens s"
  by (rule tokens_join_sp) (use tokens_good in blast)

subsection \<open>The class names after adding and removing\<close>

lemma set_fold_add:
  "set (foldl (\<lambda>cur clazz. if clazz \<in> set cur then cur else cur @ [clazz]) cur cs) =
     set cur \<union> set cs"
  by (induction cs arbitrary: cur) auto

lemma set_fold_remove:
  "set (foldl (\<lambda>cur clazz. filter (\<lambda>c. c \<noteq> clazz) cur) cur cs) = set cur - set cs"
  by (induction cs arbitrary: cur) auto

lemma dom_name_class: "dom_name ''class'' = ''class''"
  by code_simp

lemma attrs_setAttribute_class: "attrs (setAttribute e ''class'' v) = (attrs e)(''class'' \<mapsto> v)"
  by (simp add: setAttribute_def dom_name_class)

lemma class_names_written:
  assumes "\<forall>t\<in>set cur. t \<noteq> [] \<and> list_all (\<lambda>c. \<not> is_space c) t"
  shows "class_names
           (if getClass e \<noteq> join_sp cur then setAttribute e ''class'' (join_sp cur) else e) =
         set cur"
proof (cases "getClass e = join_sp cur")
  case True
  with tokens_join_sp [OF assms] show ?thesis by (simp add: class_names_def)
next
  case False
  with tokens_join_sp [OF assms] show ?thesis
    by (simp add: class_names_def getClass_def attrs_setAttribute_class)
qed

lemma class_names_addClass: "class_names (addClass e v) = class_names e \<union> set (tokens v)"
proof (cases "tokens v = []")
  case True
  then show ?thesis by (simp add: addClass_def)
next
  case False
  let ?cur = "foldl (\<lambda>cur clazz. if clazz \<in> set cur then cur else cur @ [clazz])
                (tokens (getClass e)) (tokens v)"
  have s: "set ?cur = set (tokens (getClass e)) \<union> set (tokens v)" by (rule set_fold_add)
  then have "\<forall>t\<in>set ?cur. t \<noteq> [] \<and> list_all (\<lambda>c. \<not> is_space c) t"
    using tokens_good by blast
  from class_names_written [OF this, of e] False s show ?thesis
    by (simp add: addClass_def Let_def class_names_def)
qed

lemma class_names_removeClass: "class_names (removeClass e v) = class_names e - set (tokens v)"
proof (cases "tokens v = []")
  case True
  then show ?thesis by (simp add: removeClass_def)
next
  case False
  let ?cur = "foldl (\<lambda>cur clazz. filter (\<lambda>c. c \<noteq> clazz) cur) (tokens (getClass e)) (tokens v)"
  have s: "set ?cur = set (tokens (getClass e)) - set (tokens v)" by (rule set_fold_remove)
  then have "\<forall>t\<in>set ?cur. t \<noteq> [] \<and> list_all (\<lambda>c. \<not> is_space c) t"
    using tokens_good by blast
  from class_names_written [OF this, of e] False s show ?thesis
    by (simp add: removeClass_def Let_def class_names_def)
qed

lemma without_classes_setAttribute:
  "without_classes (setAttribute e ''class'' v) = without_classes e"
  by (simp add: without_classes_def other_attrs_def setAttribute_def dom_name_class)

lemma without_classes_addClass: "without_classes (addClass e v) = without_classes e"
  by (simp add: addClass_def Let_def without_classes_setAttribute)

lemma without_classes_removeClass: "without_classes (removeClass e v) = without_classes e"
  by (simp add: removeClass_def Let_def without_classes_setAttribute)

lemma class_names_toggleClass:
  "class_names (toggleClass A e b) =
     (if truthy b
      then (class_names e \<union> listed_classes e (activeClass A)) - listed_classes e (inactiveClass A)
      else (class_names e - listed_classes e (activeClass A)) \<union> listed_classes e (inactiveClass A))"
  by (simp add: toggleClass_def Let_def listed_classes_def class_names_addClass
      class_names_removeClass)

lemma without_classes_toggleClass: "without_classes (toggleClass A e b) = without_classes e"
  by (simp add: toggleClass_def Let_def without_classes_addClass without_classes_removeClass)

lemma attrs_without_classes: "k \<noteq> ''class'' \<Longrightarrow> attrs (without_classes e) k = attrs e k"
  by (simp add: without_classes_def other_attrs_def)

lemma attrs_toggleClass: "k \<noteq> ''class'' \<Longrightarrow> attrs (toggleClass A e b) k = attrs e k"
  using attrs_without_classes [of k "toggleClass A e b"] attrs_without_classes [of k e]
  by (simp add: without_classes_toggleClass)

subsection \<open>The names that the DOM takes\<close>

lemma name_char_no_space: "name_char c \<Longrightarrow> \<not> is_space c"
  by (auto simp: name_char_def name_start_def is_letter_def is_upper_def is_lower_def
      is_digit_def is_space_def)

lemma accepted_no_space:
  assumes "name_accepted D n"
  shows "n \<noteq> []" and "list_all (\<lambda>c. \<not> is_space c) n"
proof -
  from assms show "n \<noteq> []" by (simp add: name_accepted_def)
  from assms show "list_all (\<lambda>c. \<not> is_space c) n"
    by (auto simp: name_accepted_def list_all_iff refused_char_def dest: name_char_no_space)
qed

lemma attrs_removeAttr:
  assumes "name_accepted D n"
  shows "attrs (removeAttr e n) = (attrs e)(dom_name n := None)"
  using tokens_single [OF accepted_no_space [OF assms]] by (auto simp: removeAttr_def)

lemma attr_set_accepted:
  assumes "name_accepted D n"
  shows "attr_set D e n v =
         (None, e\<lparr>attrs := (attrs e)(dom_name n \<mapsto> (if boolean_attribute n then n else v))\<rparr>)"
  using assms by (simp add: attr_set_def setAttribute_def)

subsection \<open>The effect of the plan\<close>

lemma parse_cong:
  "attrs e' m = attrs e m \<Longrightarrow> parseToggleAttribute e' m = parseToggleAttribute e m"
  by (simp add: parseToggleAttribute_def is_attr_def attr_or_empty_def attr_get_def)

lemma listed_cong:
  "attrs e' m = attrs e m \<Longrightarrow> listed_classes e' m = listed_classes e m"
  by (simp add: listed_classes_def attr_or_empty_def attr_get_def)

lemma toggleAttribute_planned:
  assumes "dir_attribute (parseToggleAttribute e (activeAttribute A)) = [] \<or>
           name_accepted D (dir_attribute (parseToggleAttribute e (activeAttribute A)))"
    and "dir_attribute (parseToggleAttribute e (inactiveAttribute A)) = [] \<or>
         name_accepted D (dir_attribute (parseToggleAttribute e (inactiveAttribute A)))"
  shows "toggleAttribute D A e b =
         (None, e\<lparr>attrs := planned_attrs (parseToggleAttribute e (activeAttribute A))
                    (parseToggleAttribute e (inactiveAttribute A)) (truthy b) (attrs e)\<rparr>)"
proof -
  let ?da = "parseToggleAttribute e (activeAttribute A)"
  let ?di = "parseToggleAttribute e (inactiveAttribute A)"
  have ra: "attrs (removeAttr x (dir_attribute ?da)) = (attrs x)(dom_name (dir_attribute ?da) := None)"
    if "dir_attribute ?da \<noteq> []" for x
  proof -
    from that assms(1) have "name_accepted D (dir_attribute ?da)" by simp
    then show ?thesis by (rule attrs_removeAttr)
  qed
  have ri: "attrs (removeAttr x (dir_attribute ?di)) = (attrs x)(dom_name (dir_attribute ?di) := None)"
    if "dir_attribute ?di \<noteq> []" for x
  proof -
    from that assms(2) have "name_accepted D (dir_attribute ?di)" by simp
    then show ?thesis by (rule attrs_removeAttr)
  qed
  have sa: "attr_set D x (dir_attribute ?da) v =
      (None, x\<lparr>attrs := (attrs x)(dom_name (dir_attribute ?da) \<mapsto>
         (if boolean_attribute (dir_attribute ?da) then dir_attribute ?da else v))\<rparr>)"
    if "dir_attribute ?da \<noteq> []" for x v
  proof -
    from that assms(1) have "name_accepted D (dir_attribute ?da)" by simp
    then show ?thesis by (rule attr_set_accepted)
  qed
  have si: "attr_set D x (dir_attribute ?di) v =
      (None, x\<lparr>attrs := (attrs x)(dom_name (dir_attribute ?di) \<mapsto>
         (if boolean_attribute (dir_attribute ?di) then dir_attribute ?di else v))\<rparr>)"
    if "dir_attribute ?di \<noteq> []" for x v
  proof -
    from that assms(2) have "name_accepted D (dir_attribute ?di)" by simp
    then show ?thesis by (rule attr_set_accepted)
  qed
  have rf: "removeAttr x n = x\<lparr>attrs := attrs (removeAttr x n)\<rparr>" for x n
    by (simp add: removeAttr_def)
  have f: "fst (toggleAttribute D A e b) = None"
    by (simp add: toggleAttribute_def Let_def sa si attr_read_def)
  have k: "snd (toggleAttribute D A e b) = e\<lparr>attrs := attrs (snd (toggleAttribute D A e b))\<rparr>"
    by (simp add: toggleAttribute_def Let_def sa si attr_read_def removeAttr_def)
  have "attrs (snd (toggleAttribute D A e b)) k = planned_attrs ?da ?di (truthy b) (attrs e) k"
    for k
    by (simp add: toggleAttribute_def Let_def planned_attrs_def directive_key_def
        directive_text_def ra ri sa si attr_read_def)
  then have a: "attrs (snd (toggleAttribute D A e b)) = planned_attrs ?da ?di (truthy b) (attrs e)"
    by (rule ext)
  have "toggleAttribute D A e b = (fst (toggleAttribute D A e b), snd (toggleAttribute D A e b))"
    by simp
  also have "\<dots> = (None, e\<lparr>attrs := attrs (snd (toggleAttribute D A e b))\<rparr>)"
    by (subst k) (simp only: f)
  finally show ?thesis by (simp only: a)
qed

lemma planned_attrs_other:
  "k \<noteq> directive_key da \<Longrightarrow> k \<noteq> directive_key di \<Longrightarrow> planned_attrs da di b m k = m k"
  by (simp add: planned_attrs_def)

lemma apart_names:
  assumes "directives_apart D A e"
  shows "dir_attribute (parseToggleAttribute e (activeAttribute A)) = [] \<or>
         name_accepted D (dir_attribute (parseToggleAttribute e (activeAttribute A)))"
    and "dir_attribute (parseToggleAttribute e (inactiveAttribute A)) = [] \<or>
         name_accepted D (dir_attribute (parseToggleAttribute e (inactiveAttribute A)))"
    and "directive_key (parseToggleAttribute e (activeAttribute A)) \<notin>
           {''class'', activeClass A, inactiveClass A, activeAttribute A, inactiveAttribute A}"
    and "directive_key (parseToggleAttribute e (inactiveAttribute A)) \<notin>
           {''class'', activeClass A, inactiveClass A, activeAttribute A, inactiveAttribute A}"
    and "''class'' \<notin> {activeClass A, inactiveClass A, activeAttribute A, inactiveAttribute A}"
  using assms by (simp_all add: directives_apart_def plain_name_def directive_key_def)

lemma parse_toggleClass:
  assumes "m \<noteq> ''class''"
  shows "parseToggleAttribute (toggleClass A e b) m = parseToggleAttribute e m"
  by (rule parse_cong) (rule attrs_toggleClass [OF assms])

lemma apply_plan_planned:
  assumes "directives_apart D A e"
  shows "apply_plan D A e b =
         (None, (toggleClass A e (JBool b))
            \<lparr>attrs := planned_attrs (parseToggleAttribute e (activeAttribute A))
               (parseToggleAttribute e (inactiveAttribute A)) b
               (attrs (toggleClass A e (JBool b)))\<rparr>)"
proof -
  from apart_names(5) [OF assms]
  have a: "activeAttribute A \<noteq> ''class''" and i: "inactiveAttribute A \<noteq> ''class''" by auto
  have "toggleAttribute D A (toggleClass A e (JBool b)) (JBool b) =
        (None, (toggleClass A e (JBool b))
           \<lparr>attrs := planned_attrs
              (parseToggleAttribute (toggleClass A e (JBool b)) (activeAttribute A))
              (parseToggleAttribute (toggleClass A e (JBool b)) (inactiveAttribute A))
              (truthy (JBool b)) (attrs (toggleClass A e (JBool b)))\<rparr>)"
    by (rule toggleAttribute_planned)
      (simp_all only: parse_toggleClass [OF a] parse_toggleClass [OF i] apart_names(1,2) [OF assms])
  then show ?thesis
    by (simp add: apply_plan_def parse_toggleClass [OF a] parse_toggleClass [OF i])
qed

lemma fst_apply_plan: "directives_apart D A e \<Longrightarrow> fst (apply_plan D A e b) = None"
  by (simp add: apply_plan_planned)

lemma attrs_apply_plan:
  assumes "directives_apart D A e"
  shows "attrs (snd (apply_plan D A e b)) =
         planned_attrs (parseToggleAttribute e (activeAttribute A))
           (parseToggleAttribute e (inactiveAttribute A)) b (attrs (toggleClass A e (JBool b)))"
  by (simp add: apply_plan_planned [OF assms])

lemma attrs_apply_plan_other:
  assumes "directives_apart D A e"
    and "k \<noteq> directive_key (parseToggleAttribute e (activeAttribute A))"
    and "k \<noteq> directive_key (parseToggleAttribute e (inactiveAttribute A))"
    and "k \<noteq> ''class''"
  shows "attrs (snd (apply_plan D A e b)) k = attrs e k"
  by (simp add: attrs_apply_plan [OF assms(1)] planned_attrs_other [OF assms(2,3)]
      attrs_toggleClass [OF assms(4)])

lemma markers_apply_plan:
  assumes "directives_apart D A e"
    and "m \<in> {activeClass A, inactiveClass A, activeAttribute A, inactiveAttribute A}"
  shows "attrs (snd (apply_plan D A e b)) m = attrs e m"
proof (rule attrs_apply_plan_other [OF assms(1)])
  from apart_names(3) [OF assms(1)] assms(2)
  show "m \<noteq> directive_key (parseToggleAttribute e (activeAttribute A))" by auto
  from apart_names(4) [OF assms(1)] assms(2)
  show "m \<noteq> directive_key (parseToggleAttribute e (inactiveAttribute A))" by auto
  from apart_names(5) [OF assms(1)] assms(2)
  show "m \<noteq> ''class''" by auto
qed

lemma parse_apply_plan:
  assumes "directives_apart D A e"
  shows "parseToggleAttribute (snd (apply_plan D A e b)) (activeAttribute A) =
           parseToggleAttribute e (activeAttribute A)"
    and "parseToggleAttribute (snd (apply_plan D A e b)) (inactiveAttribute A) =
           parseToggleAttribute e (inactiveAttribute A)"
  by (rule parse_cong, rule markers_apply_plan [OF assms], simp)+

lemma listed_apply_plan:
  assumes "directives_apart D A e"
  shows "listed_classes (snd (apply_plan D A e b)) (activeClass A) =
           listed_classes e (activeClass A)"
    and "listed_classes (snd (apply_plan D A e b)) (inactiveClass A) =
           listed_classes e (inactiveClass A)"
  by (rule listed_cong, rule markers_apply_plan [OF assms], simp)+

lemma apart_apply_plan:
  assumes "directives_apart D A e"
  shows "directives_apart D A (snd (apply_plan D A e b))"
  using assms by (simp add: directives_apart_def parse_apply_plan [OF assms])

lemma class_names_apply_plan:
  assumes "directives_apart D A e"
  shows "class_names (snd (apply_plan D A e b)) =
     (if b
      then (class_names e \<union> listed_classes e (activeClass A)) - listed_classes e (inactiveClass A)
      else (class_names e - listed_classes e (activeClass A)) \<union> listed_classes e (inactiveClass A))"
proof -
  from apart_names(3,4) [OF assms]
  have a: "''class'' \<noteq> directive_key (parseToggleAttribute e (activeAttribute A))"
    and i: "''class'' \<noteq> directive_key (parseToggleAttribute e (inactiveAttribute A))"
    by auto
  have "attrs (snd (apply_plan D A e b)) ''class'' = attrs (toggleClass A e (JBool b)) ''class''"
    by (simp add: attrs_apply_plan [OF assms] planned_attrs_other [OF a i])
  then have "class_names (snd (apply_plan D A e b)) = class_names (toggleClass A e (JBool b))"
    by (simp add: class_names_def getClass_def)
  then show ?thesis by (simp add: class_names_toggleClass)
qed

lemma attrs_wc: "attrs (without_classes x) = other_attrs x"
  by (simp add: without_classes_def)

lemma without_classes_apply_plan:
  assumes "directives_apart D A e"
  shows "without_classes (snd (apply_plan D A e b)) =
     (without_classes e)\<lparr>attrs :=
        (planned_attrs (parseToggleAttribute e (activeAttribute A))
           (parseToggleAttribute e (inactiveAttribute A)) b (other_attrs e))(''class'' := None)\<rparr>"
proof -
  let ?P = "planned_attrs (parseToggleAttribute e (activeAttribute A))
              (parseToggleAttribute e (inactiveAttribute A)) b"
  let ?e1 = "toggleClass A e (JBool b)"
  have f: "snd (apply_plan D A e b) = ?e1\<lparr>attrs := ?P (attrs ?e1)\<rparr>"
    by (simp add: apply_plan_planned [OF assms])
  have o: "other_attrs ?e1 = other_attrs e"
    using arg_cong [OF without_classes_toggleClass [of A e "JBool b"], of attrs]
    by (simp add: attrs_wc)
  have p: "(?P m)(''class'' := None) = (?P (m(''class'' := None)))(''class'' := None)" for m
    by (rule ext) (simp add: planned_attrs_def)
  have "without_classes (snd (apply_plan D A e b)) =
        ?e1\<lparr>attrs := (?P (attrs ?e1))(''class'' := None)\<rparr>"
    by (subst f) (simp add: without_classes_def other_attrs_def)
  also have "\<dots> = ?e1\<lparr>attrs := (?P (other_attrs ?e1))(''class'' := None)\<rparr>"
    by (subst p) (simp add: other_attrs_def)
  also have "\<dots> = (without_classes ?e1)\<lparr>attrs := (?P (other_attrs e))(''class'' := None)\<rparr>"
    by (simp add: o without_classes_def)
  finally show ?thesis by (simp add: without_classes_toggleClass)
qed

subsection \<open>Active, then inactive\<close>

lemma planned_inactive_absorbs:
  assumes "dir_attribute di = [] \<or> dir_value di \<noteq> []"
  shows "(planned_attrs da di False ((planned_attrs da di b m)(''class'' := None)))(''class'' := None) =
         (planned_attrs da di False m)(''class'' := None)"
  using assms by (intro ext) (auto simp: planned_attrs_def)

lemma same_state_inactive_after:
  assumes "directives_apart D A e"
  shows "same_state (snd (apply_plan D A (snd (apply_plan D A e b)) False))
           (snd (apply_plan D A e False))"
proof -
  let ?da = "parseToggleAttribute e (activeAttribute A)"
  let ?di = "parseToggleAttribute e (inactiveAttribute A)"
  note ap = apart_apply_plan [OF assms, of b]
  from assms have v: "dir_attribute ?di = [] \<or> dir_value ?di \<noteq> []"
    by (simp add: directives_apart_def)
  have c: "class_names (snd (apply_plan D A (snd (apply_plan D A e b)) False)) =
           class_names (snd (apply_plan D A e False))"
    by (auto simp: class_names_apply_plan [OF ap] class_names_apply_plan [OF assms]
        listed_apply_plan [OF assms])
  have o: "other_attrs (snd (apply_plan D A e b)) =
           (planned_attrs ?da ?di b (other_attrs e))(''class'' := None)"
    using arg_cong [OF without_classes_apply_plan [OF assms, of b], of attrs]
    by (simp add: attrs_wc)
  have w: "without_classes (snd (apply_plan D A (snd (apply_plan D A e b)) False)) =
           without_classes (snd (apply_plan D A e False))"
    by (simp add: without_classes_apply_plan [OF ap] without_classes_apply_plan [OF assms]
        parse_apply_plan [OF assms] o planned_inactive_absorbs [OF v])
  from c w show ?thesis by (simp add: same_state_def)
qed

lemma same_state_trans: "same_state a b \<Longrightarrow> same_state b c \<Longrightarrow> same_state a c"
  by (simp add: same_state_def)

text \<open>
  C8, as the code has it. Take a target whose directives are apart from its
  configuration: the names of its attribute directives are names that the DOM takes
  and are, in lower case, neither \<^verbatim>\<open>class\<close> nor the name of a directive marker.
  Then neither plan throws. Applying the plan for \<open>isActive = True\<close> and then the plan
  for \<open>isActive = False\<close> leaves the target in the same state (the same class names,
  and everything else the same) as applying the plan for \<open>isActive = False\<close> alone;
  none of the active class names is left, unless it is an inactive class name too; and
  a target that is in its inactive state gets that state back.
\<close>

theorem plan_round_trip:
  assumes "directives_apart D A e"
  shows "fst (apply_plan D A e True) = None \<and>
         fst (apply_plan D A (snd (apply_plan D A e True)) False) = None \<and>
         same_state (snd (apply_plan D A (snd (apply_plan D A e True)) False))
           (snd (apply_plan D A e False)) \<and>
         class_names (snd (apply_plan D A (snd (apply_plan D A e True)) False)) \<inter>
           listed_classes e (activeClass A) \<subseteq> listed_classes e (inactiveClass A) \<and>
         same_state
           (snd (apply_plan D A (snd (apply_plan D A (snd (apply_plan D A e False)) True)) False))
           (snd (apply_plan D A e False))"
proof -
  have n: "fst (apply_plan D A e True) = None"
    using assms by (rule fst_apply_plan)
  have m: "fst (apply_plan D A (snd (apply_plan D A e True)) False) = None"
    using apart_apply_plan [OF assms] by (rule fst_apply_plan)
  have a: "same_state (snd (apply_plan D A (snd (apply_plan D A e True)) False))
             (snd (apply_plan D A e False))"
    using assms by (rule same_state_inactive_after)
  have "class_names (snd (apply_plan D A (snd (apply_plan D A e True)) False)) =
        class_names (snd (apply_plan D A e False))"
    using a by (simp add: same_state_def)
  then have b: "class_names (snd (apply_plan D A (snd (apply_plan D A e True)) False)) \<inter>
           listed_classes e (activeClass A) \<subseteq> listed_classes e (inactiveClass A)"
    by (auto simp: class_names_apply_plan [OF assms])
  have "same_state
          (snd (apply_plan D A (snd (apply_plan D A (snd (apply_plan D A e False)) True)) False))
          (snd (apply_plan D A (snd (apply_plan D A e False)) False))"
    using apart_apply_plan [OF assms] by (rule same_state_inactive_after)
  moreover have "same_state (snd (apply_plan D A (snd (apply_plan D A e False)) False))
      (snd (apply_plan D A e False))"
    using assms by (rule same_state_inactive_after)
  ultimately have c: "same_state
      (snd (apply_plan D A (snd (apply_plan D A (snd (apply_plan D A e False)) True)) False))
      (snd (apply_plan D A e False))"
    by (rule same_state_trans)
  from n m a b c show ?thesis by simp
qed

lemma panel_apart: "directives_apart example_document default_attributes panel_toggle"
  by code_simp

lemma panel_classes:
  "class_names (snd (apply_plan example_document default_attributes panel_toggle True)) =
     {''panel'', ''visible''}"
  "class_names (snd (apply_plan example_document default_attributes panel_toggle False)) =
     {''panel'', ''hidden''}"
  "attrs (snd (apply_plan example_document default_attributes panel_toggle True))
     ''aria-expanded'' = Some ''true''"
  "attrs (snd (apply_plan example_document default_attributes panel_toggle False))
     ''aria-expanded'' = None"
  by code_simp+

theorem plan_round_trip_witness:
  "directives_apart example_document default_attributes panel_toggle \<and>
   class_names (snd (apply_plan example_document default_attributes panel_toggle True)) =
     {''panel'', ''visible''} \<and>
   attrs (snd (apply_plan example_document default_attributes panel_toggle True))
     ''aria-expanded'' = Some ''true'' \<and>
   class_names (snd (apply_plan example_document default_attributes
     (snd (apply_plan example_document default_attributes panel_toggle True)) False)) =
     {''panel'', ''hidden''} \<and>
   without_classes (snd (apply_plan example_document default_attributes
     (snd (apply_plan example_document default_attributes panel_toggle True)) False)) =
   without_classes (snd (apply_plan example_document default_attributes panel_toggle False))"
  using plan_round_trip [OF panel_apart] panel_apart panel_classes
  by (simp add: same_state_def)

text \<open>
  The claim C8 itself fails on \<open>visible_toggle\<close>, which has its active class before it
  is ever active: the plan for \<open>isActive = True\<close> changes nothing, and the plan for
  \<open>isActive = False\<close> then takes the class away.
\<close>

theorem plan_round_trip_counterexample:
  "attrs visible_toggle ''class'' = Some ''visible'' \<and>
   attrs (snd (apply_plan example_document default_attributes visible_toggle True)) ''class'' =
     Some ''visible'' \<and>
   attrs (snd (apply_plan example_document default_attributes
     (snd (apply_plan example_document default_attributes visible_toggle True)) False))
     ''class'' = Some [] \<and>
   class_names visible_toggle = {''visible''} \<and>
   class_names (snd (apply_plan example_document default_attributes
     (snd (apply_plan example_document default_attributes visible_toggle True)) False)) = {}"
  by code_simp

section \<open>The elements that a call updates\<close>
























section \<open>The attribute names after a call\<close>










end
